theory Spec2Isabelle
  imports Main "HOL-Library.Sublist"
begin

section \<open>Scope\<close>

text \<open>
  The program is the notebook \<^verbatim>\<open>Multiple_Sequence_Alignment.ipynb\<close>. Its own code has three
  parts: the length filter over the fetched records (first code cell), the truncated display
  of the alignment rows (second code cell), and a call of the consensus routine (third code
  cell). The alignment itself is computed by the external ClustalW executable and the
  consensus by the Biopython library routine \<^verbatim>\<open>dumb_consensus\<close>; neither has code in the
  notebook, so only the filter and the display are embedded here.
\<close>

section \<open>Sequence records\<close>

text \<open>
  A parsed FASTA entry. The notebook reads two attributes of it, \<^verbatim>\<open>record.id\<close> and
  \<^verbatim>\<open>record.seq\<close>; every other attribute lives in the extension part of the record scheme,
  so all results hold for records that carry more fields. The field \<^verbatim>\<open>id\<close> is named
  \<open>seq_id\<close> because \<open>id\<close> is the identity function of HOL.
\<close>

record SeqRecord =
  seq_id :: string
  seq :: string

section \<open>Length filter\<close>

text \<open>
  The source loop:

  \<^verbatim>\<open>filtered_sequences = []\<close>

  \<^verbatim>\<open>for seq in sequences:\<close>

  \<^verbatim>\<open>    if 1200 <= len(seq.seq) <= 1600:\<close>

  \<^verbatim>\<open>        filtered_sequences.append(seq)\<close>

  The loop variable walks the input front to back; the accumulator \<open>filtered\<close> is the
  list being appended to. The body has no \<^verbatim>\<open>raise\<close> and \<^verbatim>\<open>len\<close> of a sequence cannot
  fail, so the loop is a total function into lists.
\<close>

fun filter_loop ::
  "'a SeqRecord_scheme list \<Rightarrow> 'a SeqRecord_scheme list \<Rightarrow> 'a SeqRecord_scheme list" where
  "filter_loop [] filtered = filtered"
| "filter_loop (s # rest) filtered =
     filter_loop rest
       (if 1200 \<le> length (seq s) \<and> length (seq s) \<le> 1600 then filtered @ [s] else filtered)"

definition filtered_sequences :: "'a SeqRecord_scheme list \<Rightarrow> 'a SeqRecord_scheme list" where
  "filtered_sequences sequences = filter_loop sequences []"

section \<open>Truncated display of alignment rows\<close>

text \<open>
  The source loop body, for one record of the alignment:

  \<^verbatim>\<open>truncated_seq = str(record.seq)[:90]\<close>

  \<^verbatim>\<open>if len(record.seq) > 90:\<close>

  \<^verbatim>\<open>    truncated_seq += "....."\<close>

  \<^verbatim>\<open>print(f">{record.id} {truncated_seq}")\<close>

  A Python slice \<^verbatim>\<open>[:90]\<close> of a shorter string is the whole string, which is what
  \<open>take 90\<close> does.
\<close>

definition truncated_seq :: "string \<Rightarrow> string" where
  "truncated_seq row = (let t = take 90 row in if length row > 90 then t @ ''.....'' else t)"

definition record_line :: "'a SeqRecord_scheme \<Rightarrow> string" where
  "record_line r = ''>'' @ seq_id r @ '' '' @ truncated_seq (seq r)"

definition print_alignment :: "'a SeqRecord_scheme list \<Rightarrow> string list" where
  "print_alignment alignment = map record_line alignment"

section \<open>The filter loop computes a filter\<close>

lemma filter_loop_acc:
  "filter_loop xs acc =
     acc @ filter (\<lambda>s. 1200 \<le> length (seq s) \<and> length (seq s) \<le> 1600) xs"
  by (induction xs arbitrary: acc) simp_all

text \<open>
  Claim C9. For every ordered collection of fetched sequences, the length filter returns
  exactly the records whose sequence length \<open>L\<close> satisfies \<open>1200 \<le> L \<le> 1600\<close>, each one
  unchanged and in the original relative order: the result is the input with the
  out-of-window records struck out, hence a subsequence of the input.
\<close>

theorem filtered_sequences_window:
  "filtered_sequences sequences =
     filter (\<lambda>s. 1200 \<le> length (seq s) \<and> length (seq s) \<le> 1600) sequences
   \<and> subseq (filtered_sequences sequences) sequences"
  by (simp add: filtered_sequences_def filter_loop_acc)

theorem filtered_sequences_window_witness:
  "filtered_sequences
     [\<lparr>seq_id = ''short'', seq = replicate 1199 CHR ''A''\<rparr>,
      \<lparr>seq_id = ''low'', seq = replicate 1200 CHR ''C''\<rparr>,
      \<lparr>seq_id = ''long'', seq = replicate 1601 CHR ''G''\<rparr>,
      \<lparr>seq_id = ''high'', seq = replicate 1600 CHR ''T''\<rparr>]
   = [\<lparr>seq_id = ''low'', seq = replicate 1200 CHR ''C''\<rparr>,
      \<lparr>seq_id = ''high'', seq = replicate 1600 CHR ''T''\<rparr>]"
  using filtered_sequences_window
    [of "[\<lparr>seq_id = ''short'', seq = replicate 1199 CHR ''A''\<rparr>,
          \<lparr>seq_id = ''low'', seq = replicate 1200 CHR ''C''\<rparr>,
          \<lparr>seq_id = ''long'', seq = replicate 1601 CHR ''G''\<rparr>,
          \<lparr>seq_id = ''high'', seq = replicate 1600 CHR ''T''\<rparr>]"]
  by simp

section \<open>The displayed row\<close>

lemma truncated_seq_short:
  "length row \<le> 90 \<Longrightarrow> truncated_seq row = row"
  by (simp add: truncated_seq_def)

lemma truncated_seq_long:
  "90 < length row \<Longrightarrow> truncated_seq row = take 90 row @ ''.....''"
  by (simp add: truncated_seq_def)

text \<open>
  Claim C10. For every alignment record displayed, the string printed after the header
  \<open>>id\<close> and a blank is exactly the first 90 characters of the aligned row, followed by the
  marker \<open>.....\<close> if and only if the row is strictly longer than 90 characters; a row of
  exactly 90 characters is printed whole, without the marker.
\<close>

theorem truncated_seq_marker:
  "record_line r = ''>'' @ seq_id r @ '' '' @ truncated_seq (seq r)
   \<and> truncated_seq row = take 90 row @ (if 90 < length row then ''.....'' else [])
   \<and> (truncated_seq row = take 90 row @ ''.....'' \<longleftrightarrow> 90 < length row)
   \<and> (length row = 90 \<longrightarrow> truncated_seq row = row)"
proof (cases "90 < length row")
  case True
  then show ?thesis
    by (simp add: record_line_def truncated_seq_long)
next
  case False
  then have "length row \<le> 90" by simp
  then show ?thesis
    by (simp add: record_line_def truncated_seq_short)
qed

theorem truncated_seq_marker_witness:
  "length (replicate 90 CHR ''-'') = 90
   \<and> truncated_seq (replicate 90 CHR ''-'') = replicate 90 CHR ''-''
   \<and> record_line \<lparr>seq_id = ''DQ103664.1'', seq = replicate 90 CHR ''-''\<rparr>
       = ''>DQ103664.1 '' @ replicate 90 CHR ''-''"
  using truncated_seq_marker
    [of "\<lparr>seq_id = ''DQ103664.1'', seq = replicate 90 CHR ''-''\<rparr>" "replicate 90 CHR ''-''"]
  by simp

end
